theory Spec2Isabelle
  imports Complex_Main
begin

section \<open>The page-interaction script \<open>src/script.js\<close>\<close>

text \<open>
  The script is one \<open>DOMContentLoaded\<close> handler: it looks up a handful of optional DOM
  elements, keeps three module-level variables (\<open>lastScrollY\<close>, \<open>isNavOpen\<close>,
  \<open>currentTheme\<close>) and defines the functions that browser events call.  The embedding
  keeps the names of the source.

  What the browser provides is input of the model: which elements exist, their classes
  and attributes, the window's scroll metrics, the content and the behaviour of
  \<open>localStorage\<close>, and the outcome of the network request.  JavaScript numbers are
  modelled as exact rationals; every number the script computes is a comparison, one
  subtraction, one division and one multiplication by 100.  Console output is not part
  of the state, except for the error that \<open>displayFinanceNews\<close> logs when it catches one.
\<close>

subsection \<open>Exceptions\<close>

datatype error =
    TypeError string
  | ReferenceError string
  | SyntaxError string
  | HttpError nat
  | DOMException string

subsection \<open>Elements\<close>

text \<open>
  An element carries what the script reads or writes on it: its class list (a set of
  tokens), its attributes, \<open>innerHTML\<close>, the layout height \<open>offsetHeight\<close>, and the
  two inline styles the script assigns (\<open>style.width\<close> as a percentage, \<open>style.opacity\<close>).
\<close>

record element =
  classList :: "string set"
  attributes :: "string \<rightharpoonup> string"
  innerHTML :: string
  offsetHeight :: int
  style_width :: "rat option"
  style_opacity :: "rat option"

definition classList_add :: "string \<Rightarrow> element \<Rightarrow> element" where
  "classList_add tok el = el\<lparr>classList := insert tok (classList el)\<rparr>"

definition classList_remove :: "string \<Rightarrow> element \<Rightarrow> element" where
  "classList_remove tok el = el\<lparr>classList := classList el - {tok}\<rparr>"

text \<open>\<open>classList.toggle(token, force)\<close>: adds the token when \<open>force\<close> is true, removes it otherwise.\<close>

definition classList_toggle :: "string \<Rightarrow> bool \<Rightarrow> element \<Rightarrow> element" where
  "classList_toggle tok force el = (if force then classList_add tok el else classList_remove tok el)"

text \<open>\<open>setAttribute\<close> stores the string conversion of its argument.\<close>

definition string_of_bool :: "bool \<Rightarrow> string" where
  "string_of_bool b = (if b then ''true'' else ''false'')"

definition setAttribute :: "string \<Rightarrow> string \<Rightarrow> element \<Rightarrow> element" where
  "setAttribute name v el = el\<lparr>attributes := (attributes el)(name \<mapsto> v)\<rparr>"

text \<open>
  \<open>DOMTokenList.add\<close> throws on an empty token and on a token with ASCII whitespace.  The
  script passes literals everywhere but in \<open>applyTheme\<close>, where the token is built from
  the theme string.
\<close>

definition ascii_whitespace :: "char set" where
  "ascii_whitespace = {CHR 0x09, CHR 0x0A, CHR 0x0C, CHR 0x0D, CHR 0x20}"

definition valid_token :: "string \<Rightarrow> bool" where
  "valid_token tok = (tok \<noteq> [] \<and> set tok \<inter> ascii_whitespace = {})"

subsection \<open>Local storage\<close>

text \<open>
  \<open>localStorage\<close> is a key-value store that the browser may refuse to open
  (\<open>SecurityError\<close>, storage disabled) or to write (\<open>QuotaExceededError\<close>).
\<close>

record storage =
  items :: "string \<rightharpoonup> string"
  access_denied :: bool
  quota_exceeded :: bool

definition getItem :: "string \<Rightarrow> storage \<Rightarrow> error + string option" where
  "getItem key st =
     (if access_denied st then Inl (DOMException ''SecurityError'') else Inr (items st key))"

definition setItem :: "string \<Rightarrow> string \<Rightarrow> storage \<Rightarrow> error + storage" where
  "setItem key v st =
     (if access_denied st then Inl (DOMException ''SecurityError'')
      else if quota_exceeded st then Inl (DOMException ''QuotaExceededError'')
      else Inr (st\<lparr>items := (items st)(key \<mapsto> v)\<rparr>))"

subsection \<open>The news endpoint and the news grid\<close>

text \<open>
  A news item is a JSON object whose fields, when present, are strings; an absent or
  \<open>null\<close> field is \<open>None\<close>.  The body of a response either fails to parse as JSON, or
  is \<open>null\<close>, or is an object whose \<open>items\<close> is absent or an array of news items.
\<close>

record news_item =
  title :: "string option"
  link :: "string option"
  imageUrl :: "string option"
  excerpt :: "string option"
  description :: "string option"

datatype news_data = JsonNull | JsonObject "news_item list option"

datatype response_body = Unparseable | Json news_data

datatype fetch_outcome = Rejected | Response nat response_body

text \<open>\<open>response.ok\<close>: the status is in the range 200 to 299.\<close>

definition response_ok :: "nat \<Rightarrow> bool" where
  "response_ok status = (200 \<le> status \<and> status \<le> 299)"

text \<open>
  The children of the news grid: a paragraph (its class, its text) or an article built
  from a news item.  A card records the five places where the template of lines 195 to
  206 interpolates a value, and the link's \<open>target\<close> and \<open>rel\<close>.
\<close>

record card =
  card_href :: string
  card_target :: string
  card_rel :: string
  card_aria_label :: string
  card_img_src :: string
  card_title :: string
  card_excerpt :: string

datatype node = Paragraph "string option" string | Article string card

subsection \<open>The elements the animation engine selects\<close>

text \<open>
  The animation code finds its elements by selectors.  For it the document is a list of
  elements in document order, each with its tag, its classes, the index of its parent
  and the four properties that \<open>gsap.set\<close> writes.  An element is named by its index.
\<close>

record dom_element =
  tag :: string
  classes :: "string set"
  parent :: "nat option"
  gsap_opacity :: rat
  gsap_x :: rat
  gsap_y :: rat
  gsap_scale :: rat

text \<open>The selectors of the script: \<open>.c\<close>, and \<open>.c > t\<close> (a \<open>t\<close> element whose parent has class \<open>c\<close>).\<close>

datatype selector = ByClass string | ChildOf string string

text \<open>The properties an animation call names; \<open>None\<close> for a property it leaves out.\<close>

record gsap_vars =
  vars_opacity :: "rat option"
  vars_x :: "rat option"
  vars_y :: "rat option"
  vars_scale :: "rat option"

text \<open>
  A registered scroll-triggered animation: its targets, the state it animates from, the
  delay between successive targets, its duration, the trigger element and the trigger's
  start line.
\<close>

record animation =
  anim_targets :: "nat list"
  anim_from :: gsap_vars
  anim_stagger :: rat
  anim_duration :: rat
  anim_trigger :: nat
  anim_start :: string

subsection \<open>The page\<close>

record page =
  body :: element
  header :: "element option"
  mainContent :: "element option"
  footer :: "element option"
  navToggle :: "element option"
  mobileNavPanel :: "element option"
  themeToggle :: "element option"
  scrollProgressIndicator :: "element option"
  newsGrid :: "node list option"
  localStorage :: storage
  scrollY :: rat
  scrollHeight :: rat
  innerHeight :: rat
  lastScrollY :: rat
  isNavOpen :: bool
  currentTheme :: string
  network :: "fetch_outcome list"
  requests :: "string list"
  window_functions :: "(string \<times> error option) list"
  console_errors :: "error list"
  prefersReducedMotion :: bool
  document :: "dom_element list"
  animations :: "animation list"
  refresh_count :: nat

text \<open>
  The six optional targets are separate fields: they are looked up by different ids and
  selectors and are taken to be different elements.  \<open>network\<close> lists the outcomes the
  endpoint gives to successive requests, \<open>requests\<close> the URLs requested so far.
  \<open>window_functions\<close> lists the functions that other scripts have put on the global
  object, each with what a call does: return (\<open>None\<close>) or throw.  \<open>animations\<close> are
  the animations registered with the library so far, \<open>refresh_count\<close> the number of
  calls of \<open>ScrollTrigger.refresh\<close>.
\<close>

subsection \<open>Header behaviour on scroll (lines 45 to 66)\<close>

definition handleHeaderScroll :: "page \<Rightarrow> page" where
  "handleHeaderScroll s =
     (let currentScrollY = scrollY s in
      case header s of
        None \<Rightarrow> s
      | Some h \<Rightarrow>
          let h1 = (if currentScrollY > 50 then classList_add ''scrolled'' h
                    else classList_remove ''scrolled'' h);
              h2 = (if currentScrollY > lastScrollY s \<and> currentScrollY > of_int (offsetHeight h1)
                       \<and> \<not> isNavOpen s
                    then classList_add ''hidden'' h1
                    else classList_remove ''hidden'' h1)
          in s\<lparr>header := Some h2, lastScrollY := currentScrollY\<rparr>)"

subsection \<open>The navigation drawer (lines 71 to 98)\<close>

text \<open>
  A property access on \<open>null\<close> throws a \<open>TypeError\<close>; the state at the throw keeps the
  assignments made before it.  The result is \<open>Inl\<close> of the error and that state, or
  \<open>Inr\<close> of the final state.
\<close>

definition toggleMobileNav :: "page \<Rightarrow> (error \<times> page) + page" where
  "toggleMobileNav s =
     (let s1 = s\<lparr>isNavOpen := \<not> isNavOpen s\<rparr> in
      case navToggle s1 of
        None \<Rightarrow> Inl (TypeError ''navToggle is null'', s1)
      | Some t \<Rightarrow>
          let t1 = classList_toggle ''active'' (isNavOpen s1) t;
              t2 = setAttribute ''aria-expanded'' (string_of_bool (isNavOpen s1)) t1;
              s2 = s1\<lparr>navToggle := Some t2\<rparr>;
              s3 = (case mobileNavPanel s2 of
                      None \<Rightarrow> s2
                    | Some p \<Rightarrow>
                        let p1 = classList_toggle ''active'' (isNavOpen s2) p;
                            p2 = setAttribute ''aria-hidden'' (string_of_bool (\<not> isNavOpen s2)) p1
                        in s2\<lparr>mobileNavPanel := Some p2\<rparr>);
              s4 = s3\<lparr>body := classList_toggle ''no-scroll'' (isNavOpen s3) (body s3)\<rparr>
          in if isNavOpen s4 then
               (case header s4 of
                  None \<Rightarrow> Inl (TypeError ''header is null'', s4)
                | Some h \<Rightarrow> Inr (s4\<lparr>header := Some (classList_remove ''hidden'' h)\<rparr>))
             else Inr s4)"

definition closeMobileNav :: "page \<Rightarrow> (error \<times> page) + page" where
  "closeMobileNav s = (if isNavOpen s then toggleMobileNav s else Inr s)"

subsection \<open>Theme (lines 22 and 104 to 131)\<close>

text \<open>JavaScript's \<open>a || b\<close> on an optional string: absent and empty are falsy.\<close>

definition or_else :: "string option \<Rightarrow> string \<Rightarrow> string" where
  "or_else v d = (case v of None \<Rightarrow> d | Some t \<Rightarrow> if t = [] then d else t)"

text \<open>The initialiser of \<open>currentTheme\<close>, line 22.\<close>

definition currentTheme_init :: "storage \<Rightarrow> error + string" where
  "currentTheme_init st =
     (case getItem ''theme'' st of
        Inl e \<Rightarrow> Inl e
      | Inr v \<Rightarrow> Inr (or_else v ''light''))"

definition updateThemeToggleIcon :: "page \<Rightarrow> page" where
  \<open>updateThemeToggleIcon s =
     (case themeToggle s of
        None \<Rightarrow> s
      | Some b \<Rightarrow>
          let b1 = b\<lparr>innerHTML := (if currentTheme s = ''dark''
                                    then ''<i class="fas fa-sun"></i>''
                                    else ''<i class="fas fa-moon"></i>'')\<rparr>;
              b2 = setAttribute ''aria-label''
                     (''Switch to '' @ (if currentTheme s = ''dark'' then ''light'' else ''dark'')
                        @ '' mode'') b1
          in s\<lparr>themeToggle := Some b2\<rparr>)\<close>

definition applyTheme :: "string \<Rightarrow> page \<Rightarrow> (error \<times> page) + page" where
  "applyTheme theme s =
     (let s1 = s\<lparr>body := classList_remove ''dark-mode'' (classList_remove ''light-mode'' (body s))\<rparr> in
      if \<not> valid_token (theme @ ''-mode'') then Inl (DOMException ''InvalidCharacterError'', s1)
      else
        let s2 = s1\<lparr>body := classList_add (theme @ ''-mode'') (body s1)\<rparr> in
        case setItem ''theme'' theme (localStorage s2) of
          Inl e \<Rightarrow> Inl (e, s2)
        | Inr st \<Rightarrow>
            Inr (updateThemeToggleIcon (s2\<lparr>localStorage := st, currentTheme := theme\<rparr>)))"

definition toggleTheme :: "page \<Rightarrow> (error \<times> page) + page" where
  "toggleTheme s =
     (let newTheme = (if currentTheme s = ''light'' then ''dark'' else ''light'')
      in applyTheme newTheme s)"

subsection \<open>Scroll progress (lines 136 to 143)\<close>

definition updateScrollProgress :: "page \<Rightarrow> page" where
  "updateScrollProgress s =
     (case scrollProgressIndicator s of
        None \<Rightarrow> s
      | Some ind \<Rightarrow>
          let scrollableHeight = scrollHeight s - innerHeight s;
              scrolledPercentage =
                (if scrollableHeight > 0 then (scrollY s / scrollableHeight) * 100 else 0)
          in s\<lparr>scrollProgressIndicator := Some (ind\<lparr>style_width := Some scrolledPercentage\<rparr>)\<rparr>)"

text \<open>
  The scroll listener (lines 316 to 322) runs both handlers once the events have paused;
  \<open>scroll_sample y\<close> is that callback at the scroll position \<open>y\<close>.
\<close>

definition on_scroll_timeout :: "page \<Rightarrow> page" where
  "on_scroll_timeout s = updateScrollProgress (handleHeaderScroll s)"

definition scroll_sample :: "rat \<Rightarrow> page \<Rightarrow> page" where
  "scroll_sample y s = on_scroll_timeout (s\<lparr>scrollY := y\<rparr>)"

definition header_hidden :: "page \<Rightarrow> bool" where
  "header_hidden s = (case header s of None \<Rightarrow> False | Some h \<Rightarrow> ''hidden'' \<in> classList h)"

definition header_scrolled :: "page \<Rightarrow> bool" where
  "header_scrolled s = (case header s of None \<Rightarrow> False | Some h \<Rightarrow> ''scrolled'' \<in> classList h)"

subsection \<open>Revealing the page (lines 29 to 40)\<close>

definition set_opacity :: "rat \<Rightarrow> element option \<Rightarrow> element option" where
  "set_opacity v el = map_option (\<lambda>e. e\<lparr>style_opacity := Some v\<rparr>) el"

definition revealPageContent :: "page \<Rightarrow> page" where
  "revealPageContent s =
     (let s1 = s\<lparr>body := classList_remove ''preload'' (body s)\<rparr>;
          elementsToFade = filter (\<lambda>el. el \<noteq> None) [header s1, mainContent s1, footer s1]
      in if length elementsToFade > 0 then
           s1\<lparr>header := set_opacity 1 (header s1),
              mainContent := set_opacity 1 (mainContent s1),
              footer := set_opacity 1 (footer s1),
              refresh_count := Suc (refresh_count s1)\<rparr>
         else s1)"

subsection \<open>The news panel (lines 158 to 221)\<close>

definition news_endpoint :: string where
  "news_endpoint = ''/api/finance-news''"

definition loading_placeholder :: node where
  "loading_placeholder = Paragraph (Some ''loading-news'') ''Loading latest news...''"

definition no_items_message :: node where
  "no_items_message = Paragraph None ''No news items found.''"

definition error_message :: node where
  "error_message =
     Paragraph (Some ''error-news'') ''Could not load news at this time. Check console for details.''"

definition placeholder_image :: string where
  "placeholder_image = ''https://via.placeholder.com/400x250/cccccc/999999?text=News''"

text \<open>The callback of \<open>forEach\<close>, lines 183 to 207: the article built from one item.\<close>

definition render_item :: "news_item \<Rightarrow> node" where
  "render_item item =
     (let title' = or_else (title item) ''No Title Available'';
          link' = or_else (link item) ''#'';
          imageUrl' = or_else (imageUrl item) placeholder_image;
          excerpt' = or_else (excerpt item) (or_else (description item) ''No description available.'')
      in Article ''news-item''
           \<lparr>card_href = link', card_target = ''_blank'', card_rel = ''noopener noreferrer'',
            card_aria_label = ''Read more about '' @ title', card_img_src = imageUrl',
            card_title = title', card_excerpt = excerpt'\<rparr>)"

definition appendChild :: "node \<Rightarrow> page \<Rightarrow> page" where
  "appendChild n s = s\<lparr>newsGrid := map_option (\<lambda>g. g @ [n]) (newsGrid s)\<rparr>"

text \<open>The test \<open>newsData && newsData.items && newsData.items.length > 0\<close> of line 178.\<close>

definition has_items :: "news_data \<Rightarrow> bool" where
  "has_items newsData =
     (case newsData of
        JsonNull \<Rightarrow> False
      | JsonObject None \<Rightarrow> False
      | JsonObject (Some its) \<Rightarrow> length its > 0)"

definition items_of :: "news_data \<Rightarrow> news_item list" where
  "items_of newsData =
     (case newsData of
        JsonNull \<Rightarrow> []
      | JsonObject None \<Rightarrow> []
      | JsonObject (Some its) \<Rightarrow> its)"

text \<open>
  The names each function body can see.  \<open>handler_scope\<close> are the \<open>const\<close> and \<open>let\<close>
  bindings of the \<open>DOMContentLoaded\<close> callback, \<open>displayFinanceNews_scope\<close> those made
  inside \<open>displayFinanceNews\<close>, \<open>initScrollAnimations_scope\<close> those made inside
  \<open>initScrollAnimations\<close> (lines 224 to 312), among them \<open>staggerAnimation\<close> (line 250).
\<close>

definition handler_scope :: "string list" where
  "handler_scope =
     [''body'', ''header'', ''mainContent'', ''footer'', ''navToggle'', ''mobileNavPanel'',
      ''themeToggle'', ''scrollProgressIndicator'', ''currentYearSpan'', ''prefersReducedMotion'',
      ''lastScrollY'', ''isNavOpen'', ''currentTheme'', ''revealPageContent'',
      ''handleHeaderScroll'', ''toggleMobileNav'', ''closeMobileNav'', ''applyTheme'',
      ''updateThemeToggleIcon'', ''toggleTheme'', ''updateScrollProgress'', ''setFooterYear'',
      ''displayFinanceNews'', ''initScrollAnimations'', ''scrollTimeout'']"

definition displayFinanceNews_scope :: "string list" where
  "displayFinanceNews_scope =
     [''newsGrid'', ''YOUR_BACKEND_API_ENDPOINT'', ''response'', ''newsData'', ''itemsToDisplay'',
      ''item'', ''article'', ''title'', ''link'', ''imageUrl'', ''excerpt'', ''error'']"

definition initScrollAnimations_scope :: "string list" where
  "initScrollAnimations_scope =
     [''defaultAnimation'', ''staggerAnimation'', ''aboutWrapper'', ''textCol'', ''imgCol'', ''tl'']"

definition visible_in_displayFinanceNews :: "string \<Rightarrow> bool" where
  "visible_in_displayFinanceNews name = (name \<in> set (displayFinanceNews_scope @ handler_scope))"

text \<open>
  A call of a name that no enclosing function binds goes to the global object: a
  \<open>ReferenceError\<close> when the name is not defined there, else what that function does.
\<close>

definition call_global :: "string \<Rightarrow> page \<Rightarrow> (error \<times> page) + page" where
  "call_global name s =
     (case map_of (window_functions s) name of
        None \<Rightarrow> Inl (ReferenceError (name @ '' is not defined''), s)
      | Some None \<Rightarrow> Inr s
      | Some (Some e) \<Rightarrow> Inl (e, s))"

text \<open>
  The \<open>try\<close> block, lines 170 to 215, from the settled request on.  Line 211 calls
  \<open>staggerAnimation\<close>, which \<open>displayFinanceNews\<close> does not see
  (\<open>visible_in_displayFinanceNews\<close>), so the call is one of the global object.
\<close>

definition displayFinanceNews_try :: "fetch_outcome \<Rightarrow> page \<Rightarrow> (error \<times> page) + page" where
  "displayFinanceNews_try r s =
     (case r of
        Rejected \<Rightarrow> Inl (TypeError ''Failed to fetch'', s)
      | Response status b \<Rightarrow>
          if \<not> response_ok status then Inl (HttpError status, s)
          else
            (case b of
               Unparseable \<Rightarrow> Inl (SyntaxError ''Unexpected token in JSON'', s)
             | Json newsData \<Rightarrow>
                 let s1 = s\<lparr>newsGrid := Some []\<rparr> in
                 if has_items newsData then
                   let itemsToDisplay = take 4 (items_of newsData);
                       s2 = fold (\<lambda>item. appendChild (render_item item)) itemsToDisplay s1
                   in call_global ''staggerAnimation'' s2
                 else Inr (s1\<lparr>newsGrid := Some [no_items_message]\<rparr>)))"

text \<open>
  \<open>displayFinanceNews\<close> as a whole: the part before the request, the request, and the
  continuation after it settles, with the \<open>catch\<close> block of lines 217 to 220.  A request
  that never settles leaves the loading placeholder.
\<close>

definition displayFinanceNews :: "page \<Rightarrow> page" where
  "displayFinanceNews s =
     (case newsGrid s of
        None \<Rightarrow> s
      | Some g \<Rightarrow>
          let s1 = s\<lparr>newsGrid := Some [loading_placeholder]\<rparr>;
              s2 = s1\<lparr>requests := requests s1 @ [news_endpoint]\<rparr>
          in case network s2 of
               [] \<Rightarrow> s2
             | r # rest \<Rightarrow>
                 (case displayFinanceNews_try r (s2\<lparr>network := rest\<rparr>) of
                    Inl (e, s3) \<Rightarrow>
                      s3\<lparr>console_errors := console_errors s3 @ [e], newsGrid := Some [error_message]\<rparr>
                  | Inr s3 \<Rightarrow> s3))"

definition cards :: "page \<Rightarrow> node list" where
  "cards s =
     (case newsGrid s of
        None \<Rightarrow> []
      | Some g \<Rightarrow> filter (\<lambda>n. case n of Article c k \<Rightarrow> True | Paragraph c x \<Rightarrow> False) g)"

subsection \<open>Scroll animations (lines 224 to 312 and 357 to 367)\<close>

fun matches :: "dom_element list \<Rightarrow> selector \<Rightarrow> nat \<Rightarrow> bool" where
  "matches d (ByClass c) i = (i < length d \<and> c \<in> classes (d ! i))"
| "matches d (ChildOf c t) i =
     (i < length d \<and> tag (d ! i) = t \<and>
      (case parent (d ! i) of
         None \<Rightarrow> False
       | Some p \<Rightarrow> p < length d \<and> c \<in> classes (d ! p)))"

text \<open>
  \<open>gsap.utils.toArray\<close> of a selector list: the elements that match one of its parts, in
  document order.  \<open>querySelector\<close>: the first of them.
\<close>

definition toArray :: "selector list \<Rightarrow> dom_element list \<Rightarrow> nat list" where
  "toArray sels d = filter (\<lambda>i. list_ex (\<lambda>sel. matches d sel i) sels) [0..<length d]"

definition querySelector :: "selector \<Rightarrow> dom_element list \<Rightarrow> nat option" where
  "querySelector sel d = (case toArray [sel] d of [] \<Rightarrow> None | i # _ \<Rightarrow> Some i)"

text \<open>
  \<open>el.closest('.c')\<close> finds the element or an ancestor with class \<open>c\<close>.  The chain of
  parents of an element is at most as long as the document.
\<close>

fun closest_from :: "nat \<Rightarrow> dom_element list \<Rightarrow> string \<Rightarrow> nat \<Rightarrow> bool" where
  "closest_from 0 d c i = False"
| "closest_from (Suc n) d c i =
     (i < length d \<and>
      (c \<in> classes (d ! i) \<or>
       (case parent (d ! i) of None \<Rightarrow> False | Some p \<Rightarrow> closest_from n d c p)))"

definition closest :: "dom_element list \<Rightarrow> string \<Rightarrow> nat \<Rightarrow> bool" where
  "closest d c i = closest_from (length d) d c i"

fun descends_from :: "nat \<Rightarrow> dom_element list \<Rightarrow> nat \<Rightarrow> nat \<Rightarrow> bool" where
  "descends_from 0 d w i = False"
| "descends_from (Suc n) d w i =
     (i < length d \<and>
      (case parent (d ! i) of None \<Rightarrow> False | Some p \<Rightarrow> p = w \<or> descends_from n d w p))"

text \<open>\<open>w.querySelector('.c')\<close>: the first descendant of \<open>w\<close> with class \<open>c\<close>.\<close>

definition querySelector_in :: "nat \<Rightarrow> string \<Rightarrow> dom_element list \<Rightarrow> nat option" where
  "querySelector_in w c d =
     (case filter (\<lambda>i. descends_from (length d) d w i) (toArray [ByClass c] d) of
        [] \<Rightarrow> None
      | i # _ \<Rightarrow> Some i)"

definition children_of :: "nat \<Rightarrow> dom_element list \<Rightarrow> nat list" where
  "children_of w d = filter (\<lambda>i. parent (d ! i) = Some w) [0..<length d]"

text \<open>\<open>gsap.set\<close> writes the named properties at once.\<close>

definition apply_vars :: "gsap_vars \<Rightarrow> dom_element \<Rightarrow> dom_element" where
  "apply_vars v e =
     e\<lparr>gsap_opacity := (case vars_opacity v of None \<Rightarrow> gsap_opacity e | Some a \<Rightarrow> a),
       gsap_x := (case vars_x v of None \<Rightarrow> gsap_x e | Some a \<Rightarrow> a),
       gsap_y := (case vars_y v of None \<Rightarrow> gsap_y e | Some a \<Rightarrow> a),
       gsap_scale := (case vars_scale v of None \<Rightarrow> gsap_scale e | Some a \<Rightarrow> a)\<rparr>"

definition gsap_set :: "nat \<Rightarrow> gsap_vars \<Rightarrow> page \<Rightarrow> page" where
  "gsap_set el v s =
     (if el < length (document s)
      then s\<lparr>document := (document s)[el := apply_vars v (document s ! el)]\<rparr>
      else s)"

text \<open>\<open>gsap.from\<close> with a scroll trigger registers an animation.\<close>

definition gsap_from :: "animation \<Rightarrow> page \<Rightarrow> page" where
  "gsap_from a s = s\<lparr>animations := animations s @ [a]\<rparr>"

definition defaultAnimation :: "nat \<Rightarrow> page \<Rightarrow> page" where
  "defaultAnimation el s =
     gsap_from
       \<lparr>anim_targets = [el],
        anim_from = \<lparr>vars_opacity = Some 0, vars_x = None, vars_y = Some 50, vars_scale = Some (98 / 100)\<rparr>,
        anim_stagger = 0, anim_duration = 8 / 10, anim_trigger = el, anim_start = ''top 90%''\<rparr> s"

definition staggerAnimation :: "selector \<Rightarrow> selector \<Rightarrow> page \<Rightarrow> page" where
  "staggerAnimation gridSelector itemSelector s =
     (case querySelector gridSelector (document s) of
        None \<Rightarrow> s
      | Some grid \<Rightarrow>
          gsap_from
            \<lparr>anim_targets = toArray [itemSelector] (document s),
             anim_from = \<lparr>vars_opacity = Some 0, vars_x = None, vars_y = Some 50,
                          vars_scale = Some (95 / 100)\<rparr>,
             anim_stagger = 15 / 100, anim_duration = 6 / 10, anim_trigger = grid,
             anim_start = ''top 85%''\<rparr> s)"

text \<open>
  The about section, lines 275 to 311: the image column is set to its visible state, and
  one timeline with the wrapper as trigger animates the children of the text column (no
  targets when there is no text column).
\<close>

definition animate_about :: "page \<Rightarrow> page" where
  "animate_about s =
     (case querySelector (ByClass ''about-content-wrapper'') (document s) of
        None \<Rightarrow> s
      | Some aboutWrapper \<Rightarrow>
          let textCol = querySelector_in aboutWrapper ''about-text-column'' (document s);
              imgCol = querySelector_in aboutWrapper ''about-image-column'' (document s);
              s1 = (case imgCol of
                      None \<Rightarrow> s
                    | Some i \<Rightarrow>
                        gsap_set i \<lparr>vars_opacity = Some 1, vars_x = None, vars_y = None,
                                    vars_scale = Some 1\<rparr> s)
          in gsap_from
               \<lparr>anim_targets = (case textCol of None \<Rightarrow> [] | Some t \<Rightarrow> children_of t (document s1)),
                anim_from = \<lparr>vars_opacity = Some 0, vars_x = Some (- 50), vars_y = None,
                             vars_scale = None\<rparr>,
                anim_stagger = 2 / 10, anim_duration = 7 / 10, anim_trigger = aboutWrapper,
                anim_start = ''top 80%''\<rparr> s1)"

definition initScrollAnimations :: "page \<Rightarrow> page" where
  "initScrollAnimations s =
     (let s1 = fold (\<lambda>el st.
                  if \<not> closest (document st) ''featured-grid'' el
                     \<and> \<not> closest (document st) ''news-grid'' el
                  then defaultAnimation el st else st)
                (toArray [ByClass ''animate-on-scroll''] (document s)) s;
          s2 = staggerAnimation (ByClass ''featured-grid'') (ByClass ''post-card'') s1;
          s3 = staggerAnimation (ByClass ''news-grid'') (ByClass ''news-item'') s2
      in animate_about s3)"

text \<open>The selector list and the resting state of line 362 and 363.\<close>

definition animatable :: "selector list" where
  "animatable =
     [ByClass ''animate-on-scroll'', ByClass ''post-card'', ByClass ''news-item'',
      ChildOf ''about-content-wrapper'' ''div'']"

definition resting :: gsap_vars where
  "resting = \<lparr>vars_opacity = Some 1, vars_x = Some 0, vars_y = Some 0, vars_scale = Some 1\<rparr>"

text \<open>The callback of the timer set at line 357.\<close>

definition init_timeout :: "page \<Rightarrow> page" where
  "init_timeout s =
     (let s1 = (if \<not> prefersReducedMotion s then initScrollAnimations s
                else fold (\<lambda>el. gsap_set el resting) (toArray animatable (document s)) s)
      in s1\<lparr>refresh_count := Suc (refresh_count s1)\<rparr>)"

definition at_rest :: "dom_element \<Rightarrow> bool" where
  "at_rest e = (gsap_opacity e = 1 \<and> gsap_x e = 0 \<and> gsap_y e = 0 \<and> gsap_scale e = 1)"

section \<open>Observations, the specification's formula, and sample pages\<close>

text \<open>The width that the progress indicator carries, if there is an indicator.\<close>

definition progress_width :: "page \<Rightarrow> rat option" where
  "progress_width s = (case scrollProgressIndicator s of None \<Rightarrow> None | Some ind \<Rightarrow> style_width ind)"

text \<open>
  The progress ratio as the specification words it: the quotient clamped to the interval
  from 0 to 1, and 0 when the content fits in the viewport.
\<close>

definition spec_progress_ratio :: "rat \<Rightarrow> rat \<Rightarrow> rat \<Rightarrow> rat" where
  "spec_progress_ratio y scroll_height viewport =
     (if scroll_height - viewport > 0 then max 0 (min 1 (y / (scroll_height - viewport))) else 0)"

text \<open>
  The drawer's mirrored state agrees with \<open>isNavOpen\<close>: the \<open>active\<close> class and
  \<open>aria-expanded\<close> of the trigger, the \<open>active\<close> class and \<open>aria-hidden\<close> of the panel
  (when there is one), and the \<open>no-scroll\<close> class of the body.
\<close>

definition mirrors_flag :: "page \<Rightarrow> bool" where
  "mirrors_flag s =
     ((case navToggle s of
         None \<Rightarrow> True
       | Some t \<Rightarrow> (''active'' \<in> classList t) = isNavOpen s
                   \<and> attributes t ''aria-expanded'' = Some (string_of_bool (isNavOpen s)))
      \<and> (case mobileNavPanel s of
            None \<Rightarrow> True
          | Some p \<Rightarrow> (''active'' \<in> classList p) = isNavOpen s
                      \<and> attributes p ''aria-hidden'' = Some (string_of_bool (\<not> isNavOpen s)))
      \<and> (''no-scroll'' \<in> classList (body s)) = isNavOpen s)"

text \<open>
  A request that fails: the network rejects it, the status is outside 200 to 299, or the
  body does not parse as JSON.
\<close>

definition failed_fetch :: "fetch_outcome \<Rightarrow> bool" where
  "failed_fetch r =
     (case r of
        Rejected \<Rightarrow> True
      | Response status b \<Rightarrow> if response_ok status then b = Unparseable else True)"

text \<open>The effect of \<open>gsap.set\<close> with the same properties on a list of elements, one by one.\<close>

definition set_each :: "gsap_vars \<Rightarrow> nat list \<Rightarrow> dom_element list \<Rightarrow> dom_element list" where
  "set_each v els d = fold (\<lambda>el d. if el < length d then d[el := apply_vars v (d ! el)] else d) els d"

subsection \<open>Sample pages\<close>

definition plain_element :: element where
  "plain_element =
     \<lparr>classList = {}, attributes = Map.empty, innerHTML = [], offsetHeight = 80,
      style_width = None, style_opacity = None\<rparr>"

definition empty_storage :: storage where
  "empty_storage = \<lparr>items = Map.empty, access_denied = False, quota_exceeded = False\<rparr>"

text \<open>A page with every optional element, at the top, drawer closed, nothing stored.\<close>

definition demo_page :: page where
  "demo_page =
     \<lparr>body = plain_element, header = Some plain_element, mainContent = Some plain_element,
      footer = Some plain_element, navToggle = Some plain_element,
      mobileNavPanel = Some plain_element, themeToggle = Some plain_element,
      scrollProgressIndicator = Some plain_element, newsGrid = Some [],
      localStorage = empty_storage, scrollY = 0, scrollHeight = 1100, innerHeight = 1000,
      lastScrollY = 0, isNavOpen = False, currentTheme = ''light'', network = [],
      requests = [], window_functions = [], console_errors = [],
      prefersReducedMotion = False, document = [], animations = [], refresh_count = 0\<rparr>"

text \<open>The same page with the markup of a closed drawer, and with the drawer open.\<close>

definition trigger_closed :: element where
  "trigger_closed = plain_element\<lparr>attributes := [''aria-expanded'' \<mapsto> ''false'']\<rparr>"

definition panel_closed :: element where
  "panel_closed = plain_element\<lparr>attributes := [''aria-hidden'' \<mapsto> ''true'']\<rparr>"

definition drawer_page :: page where
  "drawer_page = demo_page\<lparr>navToggle := Some trigger_closed, mobileNavPanel := Some panel_closed\<rparr>"

definition hidden_header :: element where
  "hidden_header = plain_element\<lparr>classList := {''hidden''}\<rparr>"

definition open_drawer_page :: page where
  "open_drawer_page = demo_page\<lparr>isNavOpen := True, header := Some hidden_header\<rparr>"

text \<open>A page without the header element; its trigger is there.\<close>

definition headerless_page :: page where
  "headerless_page = demo_page\<lparr>header := None\<rparr>"

text \<open>A page scrolled 200 pixels where only 100 can be scrolled.\<close>

definition overscrolled_page :: page where
  "overscrolled_page = demo_page\<lparr>scrollY := 200\<rparr>"

text \<open>A page whose storage is full, and a storage that holds a theme the script never wrote.\<close>

definition full_storage_page :: page where
  "full_storage_page = demo_page\<lparr>localStorage := empty_storage\<lparr>quota_exceeded := True\<rparr>\<rparr>"

definition blue_storage :: storage where
  "blue_storage = empty_storage\<lparr>items := [''theme'' \<mapsto> ''blue'']\<rparr>"

text \<open>
  The scenario of the specification: six items that have a title and a link only, and
  the card each of them renders to.  No other script defines a global function.
\<close>

definition sample_item :: news_item where
  "sample_item =
     \<lparr>title = Some ''A'', link = Some ''http://x'', imageUrl = None, excerpt = None,
      description = None\<rparr>"

definition six_items :: "news_item list" where
  "six_items = [sample_item, sample_item, sample_item, sample_item, sample_item, sample_item]"

definition sample_card :: node where
  "sample_card =
     Article ''news-item''
       \<lparr>card_href = ''http://x'', card_target = ''_blank'', card_rel = ''noopener noreferrer'',
        card_aria_label = ''Read more about A'', card_img_src = placeholder_image,
        card_title = ''A'', card_excerpt = ''No description available.''\<rparr>"

definition news_page :: page where
  "news_page = demo_page\<lparr>network := [Response 200 (Json (JsonObject (Some six_items)))]\<rparr>"

definition server_error_page :: page where
  "server_error_page = demo_page\<lparr>network := [Response 500 Unparseable]\<rparr>"

text \<open>
  A document with an about section and its text column, a marked heading that an
  animation has hidden, an unmarked paragraph, and a paragraph inside the text column.
  On \<open>reduced_motion_page\<close> the user prefers reduced motion, on \<open>motion_page\<close> not.
\<close>

definition sample_document :: "dom_element list" where
  "sample_document =
     [\<lparr>tag = ''section'', classes = {''about-content-wrapper''}, parent = None,
       gsap_opacity = 1, gsap_x = 0, gsap_y = 0, gsap_scale = 1\<rparr>,
      \<lparr>tag = ''div'', classes = {''about-text-column''}, parent = Some 0,
       gsap_opacity = 0, gsap_x = - 50, gsap_y = 0, gsap_scale = 1\<rparr>,
      \<lparr>tag = ''h2'', classes = {''animate-on-scroll''}, parent = None,
       gsap_opacity = 0, gsap_x = 0, gsap_y = 50, gsap_scale = 98 / 100\<rparr>,
      \<lparr>tag = ''p'', classes = {}, parent = None,
       gsap_opacity = 1 / 2, gsap_x = 0, gsap_y = 0, gsap_scale = 1\<rparr>,
      \<lparr>tag = ''p'', classes = {}, parent = Some 1,
       gsap_opacity = 1, gsap_x = 0, gsap_y = 0, gsap_scale = 1\<rparr>]"

definition reduced_motion_page :: page where
  "reduced_motion_page =
     demo_page\<lparr>prefersReducedMotion := True, document := sample_document, scrollY := 700\<rparr>"

definition motion_page :: page where
  "motion_page = demo_page\<lparr>document := sample_document, scrollY := 700\<rparr>"

section \<open>Header behaviour on scroll\<close>

lemma handleHeaderScroll_hidden:
  "header s = Some h \<Longrightarrow>
     header_hidden (handleHeaderScroll s) =
       (scrollY s > lastScrollY s \<and> scrollY s > of_int (offsetHeight h) \<and> \<not> isNavOpen s)"
  by (simp add: handleHeaderScroll_def header_hidden_def Let_def classList_add_def classList_remove_def)

lemma handleHeaderScroll_scrolled:
  "header s = Some h \<Longrightarrow> header_scrolled (handleHeaderScroll s) = (scrollY s > 50)"
  by (simp add: handleHeaderScroll_def header_scrolled_def Let_def classList_add_def classList_remove_def)

lemma handleHeaderScroll_frame:
  "header s = Some h \<Longrightarrow>
     lastScrollY (handleHeaderScroll s) = scrollY s \<and> isNavOpen (handleHeaderScroll s) = isNavOpen s
     \<and> scrollY (handleHeaderScroll s) = scrollY s
     \<and> (\<exists>h'. header (handleHeaderScroll s) = Some h' \<and> offsetHeight h' = offsetHeight h)"
  by (simp add: handleHeaderScroll_def Let_def classList_add_def classList_remove_def)

text \<open>Without a header the handler returns at line 48; \<open>lastScrollY\<close> keeps its value.\<close>

lemma handleHeaderScroll_no_header: "header s = None \<Longrightarrow> handleHeaderScroll s = s"
  by (simp add: handleHeaderScroll_def)

lemma updateScrollProgress_frame:
  "header (updateScrollProgress s) = header s \<and> lastScrollY (updateScrollProgress s) = lastScrollY s
   \<and> isNavOpen (updateScrollProgress s) = isNavOpen s \<and> scrollY (updateScrollProgress s) = scrollY s"
  by (simp add: updateScrollProgress_def Let_def split: option.splits)

lemma updateScrollProgress_no_indicator:
  "scrollProgressIndicator s = None \<Longrightarrow> updateScrollProgress s = s"
  by (simp add: updateScrollProgress_def)

lemma scroll_sample_hidden:
  assumes "header s = Some h"
  shows "header_hidden (scroll_sample y s) =
           (y > lastScrollY s \<and> y > of_int (offsetHeight h) \<and> \<not> isNavOpen s)"
    and "lastScrollY (scroll_sample y s) = y"
    and "\<exists>h'. header (scroll_sample y s) = Some h'"
proof -
  let ?s = "s\<lparr>scrollY := y\<rparr>"
  have h: "header ?s = Some h" using assms by simp
  show "header_hidden (scroll_sample y s) =
           (y > lastScrollY s \<and> y > of_int (offsetHeight h) \<and> \<not> isNavOpen s)"
    using handleHeaderScroll_hidden [OF h]
    by (simp add: scroll_sample_def on_scroll_timeout_def header_hidden_def updateScrollProgress_frame)
  show "lastScrollY (scroll_sample y s) = y"
    using handleHeaderScroll_frame [OF h]
    by (simp add: scroll_sample_def on_scroll_timeout_def updateScrollProgress_frame)
  show "\<exists>h'. header (scroll_sample y s) = Some h'"
    using handleHeaderScroll_frame [OF h]
    by (auto simp add: scroll_sample_def on_scroll_timeout_def updateScrollProgress_frame)
qed

text \<open>
  C3.  On a page with a header, a scroll sample \<open>y\<close> leaves the header hidden exactly when
  \<open>y\<close> is above the last sample, above the header's height, and the drawer is closed; the
  sample becomes the last one.  So a sample below the one before it leaves the header
  shown, and so does the same sample fed twice.
\<close>

theorem header_hidden_iff:
  assumes "header s = Some h"
  shows "(header_hidden (scroll_sample y s) \<longleftrightarrow>
            y > lastScrollY s \<and> y > of_int (offsetHeight h) \<and> \<not> isNavOpen s)
         \<and> lastScrollY (scroll_sample y s) = y
         \<and> (y1 < y2 \<longrightarrow> \<not> header_hidden (scroll_sample y1 (scroll_sample y2 s)))
         \<and> \<not> header_hidden (scroll_sample y (scroll_sample y s))"
proof -
  obtain h' where h': "header (scroll_sample y s) = Some h'"
    using scroll_sample_hidden(3) [OF assms] by blast
  obtain h2 where h2: "header (scroll_sample y2 s) = Some h2"
    using scroll_sample_hidden(3) [OF assms] by blast
  have rep: "\<not> header_hidden (scroll_sample y (scroll_sample y s))"
    using scroll_sample_hidden(1) [OF h', of y] scroll_sample_hidden(2) [OF assms, of y] by simp
  have desc: "y1 < y2 \<longrightarrow> \<not> header_hidden (scroll_sample y1 (scroll_sample y2 s))"
    using scroll_sample_hidden(1) [OF h2, of y1] scroll_sample_hidden(2) [OF assms, of y2] by simp
  show ?thesis
    using scroll_sample_hidden(1,2) [OF assms, of y] rep desc by simp
qed

theorem header_hidden_iff_witness:
  "header demo_page = Some plain_element
   \<and> header_hidden (scroll_sample 300 demo_page)
   \<and> \<not> header_hidden (scroll_sample 60 demo_page)
   \<and> \<not> header_hidden (scroll_sample 100 (scroll_sample 300 demo_page))
   \<and> \<not> header_hidden (scroll_sample 300 (scroll_sample 300 demo_page))"
proof -
  have h: "header demo_page = Some plain_element" by (simp add: demo_page_def)
  have a: "header_hidden (scroll_sample 300 demo_page)"
    using header_hidden_iff [OF h, of 300 0 1] by (simp add: demo_page_def plain_element_def)
  have b: "\<not> header_hidden (scroll_sample 60 demo_page)"
    using header_hidden_iff [OF h, of 60 0 1] by (simp add: demo_page_def plain_element_def)
  have c: "\<not> header_hidden (scroll_sample 100 (scroll_sample 300 demo_page))"
    using header_hidden_iff [OF h, of 300 100 300] by simp
  have d: "\<not> header_hidden (scroll_sample 300 (scroll_sample 300 demo_page))"
    using header_hidden_iff [OF h, of 300 0 1] by simp
  show ?thesis using h a b c d by simp
qed

section \<open>Scroll progress\<close>

text \<open>
  C2, as the claim states it, fails.  On a page scrolled 200 pixels where 100 can be
  scrolled the script assigns a width of 200 percent; the clamped ratio of the
  specification gives 100 percent.
\<close>

theorem progress_not_clamped:
  "progress_width (updateScrollProgress overscrolled_page) = Some 200
   \<and> 100 * spec_progress_ratio (scrollY overscrolled_page) (scrollHeight overscrolled_page)
             (innerHeight overscrolled_page) = 100
   \<and> progress_width (updateScrollProgress overscrolled_page)
       \<noteq> Some (100 * spec_progress_ratio (scrollY overscrolled_page)
                    (scrollHeight overscrolled_page) (innerHeight overscrolled_page))"
  by (simp add: progress_width_def updateScrollProgress_def overscrolled_page_def demo_page_def
        plain_element_def spec_progress_ratio_def Let_def)

text \<open>
  C2, amended.  With an indicator on the page, the width assigned is the quotient of the
  scroll position and the scrollable height, times 100, when the scrollable height is
  positive, and 0 when it is not.  Nothing clamps it: it is the clamped ratio of the
  specification when the position lies between 0 and the scrollable height, and it is
  above 100 when the position is beyond the scrollable height.
\<close>

theorem progress_width_unclamped:
  assumes "scrollProgressIndicator s = Some ind"
  shows "progress_width (updateScrollProgress s) =
           Some (if scrollHeight s - innerHeight s > 0
                 then scrollY s / (scrollHeight s - innerHeight s) * 100 else 0)
         \<and> (0 \<le> scrollY s \<and> scrollY s \<le> scrollHeight s - innerHeight s \<longrightarrow>
              progress_width (updateScrollProgress s) =
                Some (100 * spec_progress_ratio (scrollY s) (scrollHeight s) (innerHeight s)))
         \<and> (scrollHeight s - innerHeight s \<le> 0 \<longrightarrow>
              progress_width (updateScrollProgress s) = Some 0)
         \<and> (0 < scrollHeight s - innerHeight s \<and> scrollHeight s - innerHeight s < scrollY s \<longrightarrow>
              (\<exists>w. progress_width (updateScrollProgress s) = Some w \<and> 100 < w))"
proof -
  let ?d = "scrollHeight s - innerHeight s"
  have w: "progress_width (updateScrollProgress s) =
           Some (if ?d > 0 then scrollY s / ?d * 100 else 0)"
    using assms by (simp add: progress_width_def updateScrollProgress_def Let_def)
  have inr: "0 \<le> scrollY s \<and> scrollY s \<le> ?d \<longrightarrow>
        (if ?d > 0 then scrollY s / ?d * 100 else 0)
          = 100 * spec_progress_ratio (scrollY s) (scrollHeight s) (innerHeight s)"
  proof (cases "?d > 0")
    case True
    show ?thesis
    proof
      assume a: "0 \<le> scrollY s \<and> scrollY s \<le> ?d"
      have "0 \<le> scrollY s / ?d" using a True by simp
      moreover have "scrollY s / ?d \<le> 1" using a True by (simp add: divide_le_eq)
      ultimately show "(if ?d > 0 then scrollY s / ?d * 100 else 0)
          = 100 * spec_progress_ratio (scrollY s) (scrollHeight s) (innerHeight s)"
        using True by (simp add: spec_progress_ratio_def max_def min_def)
    qed
  next
    case False
    then show ?thesis by (simp add: spec_progress_ratio_def)
  qed
  have over: "0 < ?d \<and> ?d < scrollY s \<longrightarrow> 100 < scrollY s / ?d * 100"
  proof
    assume a: "0 < ?d \<and> ?d < scrollY s"
    then have "1 < scrollY s / ?d" by (simp add: less_divide_eq)
    then have "1 * 100 < scrollY s / ?d * 100" by (rule mult_strict_right_mono) simp
    then show "100 < scrollY s / ?d * 100" by simp
  qed
  show ?thesis using w inr over by auto
qed

theorem progress_width_unclamped_witness:
  "scrollProgressIndicator (demo_page\<lparr>scrollY := 25\<rparr>) = Some plain_element
   \<and> progress_width (updateScrollProgress (demo_page\<lparr>scrollY := 25\<rparr>)) = Some 25
   \<and> 100 * spec_progress_ratio 25 1100 1000 = 25"
proof -
  have h: "scrollProgressIndicator (demo_page\<lparr>scrollY := 25\<rparr>) = Some plain_element"
    by (simp add: demo_page_def)
  show ?thesis
    using h progress_width_unclamped [OF h]
    by (simp add: demo_page_def spec_progress_ratio_def)
qed

section \<open>The navigation drawer\<close>

lemma toggleMobileNav_closing:
  assumes "isNavOpen s" and "navToggle s = Some t"
  shows "toggleMobileNav s =
           Inr (s\<lparr>isNavOpen := False,
                  navToggle := Some (setAttribute ''aria-expanded'' ''false'' (classList_remove ''active'' t)),
                  mobileNavPanel := map_option (\<lambda>p. setAttribute ''aria-hidden'' ''true'' (classList_remove ''active'' p)) (mobileNavPanel s),
                  body := classList_remove ''no-scroll'' (body s)\<rparr>)"
  using assms
  by (cases "mobileNavPanel s")
     (simp_all add: toggleMobileNav_def Let_def classList_toggle_def string_of_bool_def)

lemma toggleMobileNav_opening:
  assumes "\<not> isNavOpen s" and "navToggle s = Some t" and "header s = Some h"
  shows "toggleMobileNav s =
           Inr (s\<lparr>isNavOpen := True,
                  navToggle := Some (setAttribute ''aria-expanded'' ''true'' (classList_add ''active'' t)),
                  mobileNavPanel := map_option (\<lambda>p. setAttribute ''aria-hidden'' ''false'' (classList_add ''active'' p)) (mobileNavPanel s),
                  body := classList_add ''no-scroll'' (body s),
                  header := Some (classList_remove ''hidden'' h)\<rparr>)"
  using assms
  by (cases "mobileNavPanel s")
     (simp_all add: toggleMobileNav_def Let_def classList_toggle_def string_of_bool_def)

text \<open>
  Opening the drawer on a page without a header throws at line 87, after the flag, the
  trigger, the panel and the body have been updated.  Without the trigger the toggle
  throws at line 73 (the click listener is registered only when there is a trigger).
\<close>

lemma toggleMobileNav_opening_no_header:
  assumes "\<not> isNavOpen s" and "navToggle s = Some t" and "header s = None"
  shows "\<exists>s'. toggleMobileNav s = Inl (TypeError ''header is null'', s') \<and> isNavOpen s'"
  using assms
  by (cases "mobileNavPanel s")
     (simp_all add: toggleMobileNav_def Let_def classList_toggle_def string_of_bool_def)

lemma toggleMobileNav_no_trigger:
  assumes "navToggle s = None"
  shows "toggleMobileNav s = Inl (TypeError ''navToggle is null'', s\<lparr>isNavOpen := \<not> isNavOpen s\<rparr>)"
  using assms by (simp add: toggleMobileNav_def Let_def)

lemma element_restore_open:
  assumes "tok \<in> classList e" and "attributes e a = Some v"
  shows "setAttribute a v (classList_add tok (setAttribute a w (classList_remove tok e))) = e"
proof -
  have "insert tok (classList e - {tok}) = classList e" using assms(1) by auto
  moreover have "(attributes e)(a \<mapsto> v) = attributes e" using assms(2) by (simp add: map_upd_triv)
  ultimately show ?thesis
    by (simp add: classList_add_def classList_remove_def setAttribute_def)
qed

lemma element_restore_closed:
  assumes "tok \<notin> classList e" and "attributes e a = Some v"
  shows "setAttribute a v (classList_remove tok (setAttribute a w (classList_add tok e))) = e"
proof -
  have "insert tok (classList e) - {tok} = classList e" using assms(1) by auto
  moreover have "(attributes e)(a \<mapsto> v) = attributes e" using assms(2) by (simp add: map_upd_triv)
  ultimately show ?thesis
    by (simp add: classList_add_def classList_remove_def setAttribute_def)
qed

lemma body_restore:
  "tok \<in> classList e \<Longrightarrow> classList_add tok (classList_remove tok e) = e"
  "tok \<notin> classList e \<Longrightarrow> classList_remove tok (classList_add tok e) = e"
  by (auto simp add: classList_add_def classList_remove_def insert_absorb)

text \<open>Every toggle that returns leaves the mirrored state in agreement with the flag.\<close>

lemma toggleMobileNav_establishes_mirror:
  assumes "toggleMobileNav s = Inr s'"
  shows "mirrors_flag s' \<and> isNavOpen s' = (\<not> isNavOpen s)"
proof (cases "navToggle s")
  case None
  then show ?thesis using assms by (simp add: toggleMobileNav_no_trigger)
next
  case (Some t)
  show ?thesis
  proof (cases "isNavOpen s")
    case True
    show ?thesis
      using assms True unfolding toggleMobileNav_closing [OF True Some]
      by (cases "mobileNavPanel s")
         (auto simp add: mirrors_flag_def setAttribute_def classList_remove_def string_of_bool_def)
  next
    case False
    show ?thesis
    proof (cases "header s")
      case None
      then show ?thesis
        using assms toggleMobileNav_opening_no_header [OF False Some None] by auto
    next
      case (Some h)
      show ?thesis
        using assms False unfolding toggleMobileNav_opening [OF False \<open>navToggle s = Some t\<close> Some]
        by (cases "mobileNavPanel s")
           (auto simp add: mirrors_flag_def setAttribute_def classList_add_def string_of_bool_def)
    qed
  qed
qed

text \<open>
  C6, as the claim states it, fails.  The script writes the mirrored attributes on each
  toggle and never at load.  On the page whose trigger and panel carry no
  \<open>aria-expanded\<close> and no \<open>aria-hidden\<close> in their markup, two toggles return and
  bring the flag back, but they leave \<open>aria-expanded\<close> at \<open>false\<close> and
  \<open>aria-hidden\<close> at \<open>true\<close> where there was no attribute: the trigger and the panel
  are not what they were.
\<close>

theorem toggle_twice_sets_attributes:
  "case toggleMobileNav demo_page of
     Inl x \<Rightarrow> False
   | Inr s1 \<Rightarrow>
       (case toggleMobileNav s1 of
          Inl x \<Rightarrow> False
        | Inr s2 \<Rightarrow>
            isNavOpen s2 = isNavOpen demo_page
            \<and> map_option (\<lambda>t. attributes t ''aria-expanded'') (navToggle demo_page) = Some None
            \<and> map_option (\<lambda>t. attributes t ''aria-expanded'') (navToggle s2) = Some (Some ''false'')
            \<and> map_option (\<lambda>p. attributes p ''aria-hidden'') (mobileNavPanel demo_page) = Some None
            \<and> map_option (\<lambda>p. attributes p ''aria-hidden'') (mobileNavPanel s2) = Some (Some ''true'')
            \<and> navToggle s2 \<noteq> navToggle demo_page
            \<and> mobileNavPanel s2 \<noteq> mobileNavPanel demo_page)"
proof -
  define s1 where "s1 = demo_page\<lparr>isNavOpen := True,
      navToggle := Some (setAttribute ''aria-expanded'' ''true'' (classList_add ''active'' plain_element)),
      mobileNavPanel := map_option (\<lambda>p. setAttribute ''aria-hidden'' ''false'' (classList_add ''active'' p)) (mobileNavPanel demo_page),
      body := classList_add ''no-scroll'' (body demo_page),
      header := Some (classList_remove ''hidden'' plain_element)\<rparr>"
  define t1 where "t1 = setAttribute ''aria-expanded'' ''true'' (classList_add ''active'' plain_element)"
  define s2 where "s2 = s1\<lparr>isNavOpen := False,
      navToggle := Some (setAttribute ''aria-expanded'' ''false'' (classList_remove ''active'' t1)),
      mobileNavPanel := map_option (\<lambda>p. setAttribute ''aria-hidden'' ''true'' (classList_remove ''active'' p)) (mobileNavPanel s1),
      body := classList_remove ''no-scroll'' (body s1)\<rparr>"
  have 1: "toggleMobileNav demo_page = Inr s1"
    unfolding s1_def
    by (rule toggleMobileNav_opening) (simp_all add: demo_page_def)
  have 2: "toggleMobileNav s1 = Inr s2"
    unfolding s2_def
    by (rule toggleMobileNav_closing) (simp_all add: s1_def t1_def)
  have f: "isNavOpen s2 = isNavOpen demo_page"
    by (simp add: s2_def s1_def demo_page_def)
  have t0: "map_option (\<lambda>t. attributes t ''aria-expanded'') (navToggle demo_page) = Some None"
    and p0: "map_option (\<lambda>p. attributes p ''aria-hidden'') (mobileNavPanel demo_page) = Some None"
    by (simp_all add: demo_page_def plain_element_def)
  have t2: "map_option (\<lambda>t. attributes t ''aria-expanded'') (navToggle s2) = Some (Some ''false'')"
    by (simp add: s2_def setAttribute_def)
  have p2: "map_option (\<lambda>p. attributes p ''aria-hidden'') (mobileNavPanel s2) = Some (Some ''true'')"
    by (simp add: s2_def s1_def demo_page_def setAttribute_def)
  have nt: "navToggle s2 \<noteq> navToggle demo_page" using t0 t2 by auto
  have np: "mobileNavPanel s2 \<noteq> mobileNavPanel demo_page" using p0 p2 by auto
  show ?thesis using f t0 t2 p0 p2 nt np by (simp add: 1 2)
qed

text \<open>
  C6, amended.  On a page with the trigger and the header, in a state whose mirrored
  attributes agree with the flag (as they do after every toggle that returns), two
  toggles return, the first flips the flag and the second flips it back, and the trigger
  (its \<open>active\<close> class and \<open>aria-expanded\<close>), the panel (its \<open>active\<close> class and
  \<open>aria-hidden\<close>) and the body (its \<open>no-scroll\<close> class) are what they were.
\<close>

theorem toggle_twice_restores:
  assumes "navToggle s = Some t" and "header s = Some h" and "mirrors_flag s"
  shows "\<exists>s1 s2. toggleMobileNav s = Inr s1 \<and> toggleMobileNav s1 = Inr s2
           \<and> isNavOpen s1 = (\<not> isNavOpen s) \<and> isNavOpen s2 = isNavOpen s
           \<and> navToggle s2 = navToggle s \<and> mobileNavPanel s2 = mobileNavPanel s
           \<and> body s2 = body s"
proof (cases "isNavOpen s")
  case True
  define s1 where "s1 = s\<lparr>isNavOpen := False,
                  navToggle := Some (setAttribute ''aria-expanded'' ''false'' (classList_remove ''active'' t)),
                  mobileNavPanel := map_option (\<lambda>p. setAttribute ''aria-hidden'' ''true'' (classList_remove ''active'' p)) (mobileNavPanel s),
                  body := classList_remove ''no-scroll'' (body s)\<rparr>"
  define t1 where "t1 = setAttribute ''aria-expanded'' ''false'' (classList_remove ''active'' t)"
  define s2 where "s2 = s1\<lparr>isNavOpen := True,
                  navToggle := Some (setAttribute ''aria-expanded'' ''true'' (classList_add ''active'' t1)),
                  mobileNavPanel := map_option (\<lambda>p. setAttribute ''aria-hidden'' ''false'' (classList_add ''active'' p)) (mobileNavPanel s1),
                  body := classList_add ''no-scroll'' (body s1),
                  header := Some (classList_remove ''hidden'' h)\<rparr>"
  have 1: "toggleMobileNav s = Inr s1"
    unfolding s1_def using toggleMobileNav_closing [OF True assms(1)] .
  have t: "''active'' \<in> classList t" "attributes t ''aria-expanded'' = Some ''true''"
    and b: "''no-scroll'' \<in> classList (body s)"
    using assms(1,3) True by (simp_all add: mirrors_flag_def string_of_bool_def)
  have p: "\<And>p. mobileNavPanel s = Some p \<Longrightarrow>
             ''active'' \<in> classList p \<and> attributes p ''aria-hidden'' = Some ''false''"
    using assms(3) True by (simp add: mirrors_flag_def string_of_bool_def)
  have 2: "toggleMobileNav s1 = Inr s2"
    unfolding s2_def
    by (rule toggleMobileNav_opening) (simp_all add: s1_def t1_def assms(2))
  have panel: "mobileNavPanel s2 = mobileNavPanel s"
    using p by (cases "mobileNavPanel s") (simp_all add: s2_def s1_def element_restore_open)
  have trig: "navToggle s2 = navToggle s"
    using t assms(1) by (simp add: s2_def t1_def element_restore_open)
  have bod: "body s2 = body s"
    using b by (simp add: s2_def s1_def body_restore)
  have flags: "isNavOpen s1 = (\<not> isNavOpen s)" "isNavOpen s2 = isNavOpen s"
    using True by (simp_all add: s2_def s1_def)
  show ?thesis using 1 2 panel trig bod flags by blast
next
  case False
  define s1 where "s1 = s\<lparr>isNavOpen := True,
                  navToggle := Some (setAttribute ''aria-expanded'' ''true'' (classList_add ''active'' t)),
                  mobileNavPanel := map_option (\<lambda>p. setAttribute ''aria-hidden'' ''false'' (classList_add ''active'' p)) (mobileNavPanel s),
                  body := classList_add ''no-scroll'' (body s),
                  header := Some (classList_remove ''hidden'' h)\<rparr>"
  define t1 where "t1 = setAttribute ''aria-expanded'' ''true'' (classList_add ''active'' t)"
  define s2 where "s2 = s1\<lparr>isNavOpen := False,
                  navToggle := Some (setAttribute ''aria-expanded'' ''false'' (classList_remove ''active'' t1)),
                  mobileNavPanel := map_option (\<lambda>p. setAttribute ''aria-hidden'' ''true'' (classList_remove ''active'' p)) (mobileNavPanel s1),
                  body := classList_remove ''no-scroll'' (body s1)\<rparr>"
  have 1: "toggleMobileNav s = Inr s1"
    unfolding s1_def using toggleMobileNav_opening [OF False assms(1,2)] .
  have t: "''active'' \<notin> classList t" "attributes t ''aria-expanded'' = Some ''false''"
    and b: "''no-scroll'' \<notin> classList (body s)"
    using assms(1,3) False by (simp_all add: mirrors_flag_def string_of_bool_def)
  have p: "\<And>p. mobileNavPanel s = Some p \<Longrightarrow>
             ''active'' \<notin> classList p \<and> attributes p ''aria-hidden'' = Some ''true''"
    using assms(3) False by (simp add: mirrors_flag_def string_of_bool_def)
  have 2: "toggleMobileNav s1 = Inr s2"
    unfolding s2_def
    by (rule toggleMobileNav_closing) (simp_all add: s1_def t1_def)
  have panel: "mobileNavPanel s2 = mobileNavPanel s"
    using p by (cases "mobileNavPanel s") (simp_all add: s2_def s1_def element_restore_closed)
  have trig: "navToggle s2 = navToggle s"
    using t assms(1) by (simp add: s2_def t1_def element_restore_closed)
  have bod: "body s2 = body s"
    using b by (simp add: s2_def s1_def body_restore)
  have flags: "isNavOpen s1 = (\<not> isNavOpen s)" "isNavOpen s2 = isNavOpen s"
    using False by (simp_all add: s2_def s1_def)
  show ?thesis using 1 2 panel trig bod flags by blast
qed

theorem toggle_twice_restores_witness:
  "navToggle drawer_page = Some trigger_closed \<and> header drawer_page = Some plain_element
   \<and> mirrors_flag drawer_page
   \<and> (\<exists>s1 s2. toggleMobileNav drawer_page = Inr s1 \<and> toggleMobileNav s1 = Inr s2
         \<and> isNavOpen s1 \<and> \<not> isNavOpen s2 \<and> navToggle s2 = Some trigger_closed
         \<and> mobileNavPanel s2 = Some panel_closed \<and> body s2 = plain_element)"
proof -
  have t: "navToggle drawer_page = Some trigger_closed"
    and h: "header drawer_page = Some plain_element"
    and p: "mobileNavPanel drawer_page = Some panel_closed"
    and b: "body drawer_page = plain_element"
    and f: "\<not> isNavOpen drawer_page"
    by (simp_all add: drawer_page_def demo_page_def)
  have m: "mirrors_flag drawer_page"
    by (simp add: mirrors_flag_def t p b f trigger_closed_def panel_closed_def plain_element_def
          string_of_bool_def)
  from toggle_twice_restores [OF t h m] obtain s1 s2 where
    "toggleMobileNav drawer_page = Inr s1" "toggleMobileNav s1 = Inr s2"
    "isNavOpen s1 = (\<not> isNavOpen drawer_page)" "isNavOpen s2 = isNavOpen drawer_page"
    "navToggle s2 = navToggle drawer_page" "mobileNavPanel s2 = mobileNavPanel drawer_page"
    "body s2 = body drawer_page"
    by blast
  then have "\<exists>s1 s2. toggleMobileNav drawer_page = Inr s1 \<and> toggleMobileNav s1 = Inr s2
         \<and> isNavOpen s1 \<and> \<not> isNavOpen s2 \<and> navToggle s2 = Some trigger_closed
         \<and> mobileNavPanel s2 = Some panel_closed \<and> body s2 = plain_element"
    using t p b f by auto
  then show ?thesis using t h m by blast
qed

text \<open>
  C10.  A toggle of the open drawer, and with it \<open>closeMobileNav\<close>, returns, closes the
  drawer and leaves the header element as it was, its \<open>hidden\<close> class included.
\<close>

theorem closing_keeps_header:
  assumes "isNavOpen s" and "navToggle s = Some t"
  shows "\<exists>s'. toggleMobileNav s = Inr s' \<and> closeMobileNav s = Inr s' \<and> \<not> isNavOpen s'
           \<and> header s' = header s \<and> header_hidden s' = header_hidden s"
  using toggleMobileNav_closing [OF assms] assms(1)
  by (simp add: closeMobileNav_def header_hidden_def)

theorem closing_keeps_header_witness:
  "isNavOpen open_drawer_page \<and> navToggle open_drawer_page = Some plain_element
   \<and> header_hidden open_drawer_page
   \<and> (\<exists>s'. closeMobileNav open_drawer_page = Inr s' \<and> \<not> isNavOpen s' \<and> header_hidden s')"
proof -
  have o: "isNavOpen open_drawer_page"
    and t: "navToggle open_drawer_page = Some plain_element"
    by (simp_all add: open_drawer_page_def demo_page_def)
  have hh: "header_hidden open_drawer_page"
    by (simp add: header_hidden_def open_drawer_page_def hidden_header_def)
  from closing_keeps_header [OF o t] hh
  have "\<exists>s'. closeMobileNav open_drawer_page = Inr s' \<and> \<not> isNavOpen s' \<and> header_hidden s'"
    by auto
  then show ?thesis using o t hh by blast
qed

text \<open>Opening is the transition that removes the header's \<open>hidden\<close> class; a closed drawer is left alone by \<open>closeMobileNav\<close>.\<close>

lemma opening_shows_header:
  assumes "\<not> isNavOpen s" and "navToggle s = Some t" and "header s = Some h"
  shows "\<exists>s'. toggleMobileNav s = Inr s' \<and> \<not> header_hidden s'"
  using toggleMobileNav_opening [OF assms]
  by (simp add: header_hidden_def classList_remove_def)

lemma closeMobileNav_closed: "\<not> isNavOpen s \<Longrightarrow> closeMobileNav s = Inr s"
  by (simp add: closeMobileNav_def)

text \<open>
  C5.  The claim holds for the handlers that test their element first
  (\<open>handleHeaderScroll_no_header\<close>, \<open>updateScrollProgress_no_indicator\<close>), and not for
  \<open>toggleMobileNav\<close>: on the page without a header, a click on the trigger throws a
  \<open>TypeError\<close> and leaves the drawer flagged open.
\<close>

theorem toggle_without_header_throws:
  "\<exists>s'. toggleMobileNav headerless_page = Inl (TypeError ''header is null'', s')
        \<and> isNavOpen s' \<and> ''no-scroll'' \<in> classList (body s')"
proof -
  have "toggleMobileNav headerless_page =
          Inl (TypeError ''header is null'',
               headerless_page\<lparr>isNavOpen := True,
                 navToggle := Some (setAttribute ''aria-expanded'' ''true'' (classList_add ''active'' plain_element)),
                 mobileNavPanel := Some (setAttribute ''aria-hidden'' ''false'' (classList_add ''active'' plain_element)),
                 body := classList_add ''no-scroll'' plain_element\<rparr>)"
    by (simp add: toggleMobileNav_def headerless_page_def demo_page_def Let_def
          classList_toggle_def string_of_bool_def)
  then show ?thesis by (simp add: classList_add_def)
qed

section \<open>Theme\<close>

lemma updateThemeToggleIcon_no_toggle: "themeToggle s = None \<Longrightarrow> updateThemeToggleIcon s = s"
  by (simp add: updateThemeToggleIcon_def)

text \<open>
  C4, as the claim states it, fails.  With the storage full, \<open>applyTheme\<close> throws the
  storage's \<open>QuotaExceededError\<close>; the body has the new class, the variable
  \<open>currentTheme\<close> keeps its old value.
\<close>

theorem storage_failure_propagates:
  "case applyTheme ''dark'' full_storage_page of
     Inl (e, s') \<Rightarrow> e = DOMException ''QuotaExceededError'' \<and> currentTheme s' = ''light''
                    \<and> ''dark-mode'' \<in> classList (body s')
   | Inr s' \<Rightarrow> False"
  by (simp add: applyTheme_def full_storage_page_def demo_page_def plain_element_def
        empty_storage_def setItem_def valid_token_def ascii_whitespace_def Let_def
        classList_add_def classList_remove_def)

text \<open>
  C4, amended.  For a theme that makes a valid class token: when the storage write
  throws, \<open>applyTheme\<close> throws the same error, with the body's class set and with the
  variable \<open>currentTheme\<close>, the toggle button and the storage unchanged; when the write
  succeeds, \<open>applyTheme\<close> returns with the class set, the theme stored and
  \<open>currentTheme\<close> updated.
\<close>

theorem applyTheme_outcomes:
  assumes "valid_token (theme @ ''-mode'')"
  shows "(\<forall>e. setItem ''theme'' theme (localStorage s) = Inl e \<longrightarrow>
            (\<exists>s'. applyTheme theme s = Inl (e, s') \<and> currentTheme s' = currentTheme s
                \<and> themeToggle s' = themeToggle s \<and> localStorage s' = localStorage s
                \<and> theme @ ''-mode'' \<in> classList (body s')))
         \<and> (\<forall>st. setItem ''theme'' theme (localStorage s) = Inr st \<longrightarrow>
            (\<exists>s'. applyTheme theme s = Inr s' \<and> currentTheme s' = theme
                \<and> localStorage s' = st \<and> items st ''theme'' = Some theme
                \<and> theme @ ''-mode'' \<in> classList (body s')))"
proof (cases "setItem ''theme'' theme (localStorage s)")
  case (Inl e)
  then show ?thesis
    using assms by (simp add: applyTheme_def Let_def classList_add_def classList_remove_def)
next
  case (Inr st)
  have stored: "items st ''theme'' = Some theme"
    using Inr by (auto simp add: setItem_def split: if_splits)
  show ?thesis
    using assms Inr stored
    by (cases "themeToggle s")
       (simp_all add: applyTheme_def Let_def classList_add_def classList_remove_def
          updateThemeToggleIcon_def setAttribute_def)
qed

theorem applyTheme_outcomes_witness:
  "valid_token (''dark'' @ ''-mode'')
   \<and> (\<exists>s'. applyTheme ''dark'' full_storage_page = Inl (DOMException ''QuotaExceededError'', s')
          \<and> currentTheme s' = ''light'')
   \<and> (\<exists>s'. applyTheme ''dark'' demo_page = Inr s' \<and> currentTheme s' = ''dark''
          \<and> items (localStorage s') ''theme'' = Some ''dark'')"
proof -
  have v: "valid_token (''dark'' @ ''-mode'')"
    by (simp add: valid_token_def ascii_whitespace_def)
  have f: "setItem ''theme'' ''dark'' (localStorage full_storage_page) = Inl (DOMException ''QuotaExceededError'')"
    by (simp add: setItem_def full_storage_page_def demo_page_def empty_storage_def)
  have g: "setItem ''theme'' ''dark'' (localStorage demo_page) = Inr (empty_storage\<lparr>items := [''theme'' \<mapsto> ''dark'']\<rparr>)"
    by (simp add: setItem_def demo_page_def empty_storage_def)
  have c: "currentTheme full_storage_page = ''light''"
    by (simp add: full_storage_page_def demo_page_def)
  from applyTheme_outcomes [OF v, of full_storage_page] f c
  have 1: "\<exists>s'. applyTheme ''dark'' full_storage_page = Inl (DOMException ''QuotaExceededError'', s')
          \<and> currentTheme s' = ''light''" by auto
  from applyTheme_outcomes [OF v, of demo_page] g
  have 2: "\<exists>s'. applyTheme ''dark'' demo_page = Inr s' \<and> currentTheme s' = ''dark''
          \<and> items (localStorage s') ''theme'' = Some ''dark''" by auto
  show ?thesis using v 1 2 by blast
qed

text \<open>
  C7, as the claim states it, fails.  A stored \<open>blue\<close> is read back as the theme, and a
  storage that cannot be opened makes the initialiser throw.
\<close>

theorem stored_theme_not_validated:
  "currentTheme_init blue_storage = Inr ''blue'' \<and> ''blue'' \<notin> {''light'', ''dark''}
   \<and> currentTheme_init (empty_storage\<lparr>access_denied := True\<rparr>) = Inl (DOMException ''SecurityError'')"
  by (simp add: currentTheme_init_def getItem_def blue_storage_def empty_storage_def or_else_def)

text \<open>
  C7, amended.  The initial theme is the stored string when one is stored and not empty,
  whatever it is, and \<open>light\<close> when the slot is unset or empty; so it is \<open>light\<close> or
  \<open>dark\<close> when the slot is unset, empty, \<open>light\<close> or \<open>dark\<close>.  When the storage cannot
  be opened the initialiser throws.
\<close>

theorem currentTheme_init_value:
  "currentTheme_init st =
     (if access_denied st then Inl (DOMException ''SecurityError'')
      else Inr (case items st ''theme'' of
                  None \<Rightarrow> ''light''
                | Some t \<Rightarrow> if t = [] then ''light'' else t))
   \<and> (\<not> access_denied st \<and> items st ''theme'' \<in> {None, Some [], Some ''light'', Some ''dark''} \<longrightarrow>
        currentTheme_init st \<in> {Inr ''light'', Inr ''dark''})"
  by (auto simp add: currentTheme_init_def getItem_def or_else_def split: option.splits)

theorem currentTheme_init_value_witness:
  "currentTheme_init (empty_storage\<lparr>items := [''theme'' \<mapsto> ''dark'']\<rparr>) = Inr ''dark''
   \<and> currentTheme_init empty_storage = Inr ''light''"
  using currentTheme_init_value [of "empty_storage\<lparr>items := [''theme'' \<mapsto> ''dark'']\<rparr>"]
        currentTheme_init_value [of empty_storage]
  by (simp add: empty_storage_def)

section \<open>The news panel\<close>

text \<open>
  \<open>staggerAnimation\<close> is bound inside \<open>initScrollAnimations\<close> and is not among the names
  that \<open>displayFinanceNews\<close> sees.
\<close>

lemma staggerAnimation_out_of_scope:
  "\<not> visible_in_displayFinanceNews ''staggerAnimation''
   \<and> ''staggerAnimation'' \<in> set initScrollAnimations_scope"
  by (simp add: visible_in_displayFinanceNews_def displayFinanceNews_scope_def handler_scope_def
        initScrollAnimations_scope_def)

lemma fold_appendChild:
  "newsGrid s = Some g \<Longrightarrow>
     fold (\<lambda>item. appendChild (render_item item)) its s
       = s\<lparr>newsGrid := Some (g @ map render_item its)\<rparr>"
proof (induction its arbitrary: s g)
  case Nil
  then show ?case by simp
next
  case (Cons a its)
  have "newsGrid (appendChild (render_item a) s) = Some (g @ [render_item a])"
    using Cons.prems by (simp add: appendChild_def)
  from Cons.IH [OF this] show ?case
    using Cons.prems by (simp add: appendChild_def)
qed

lemma render_sample_item: "render_item sample_item = sample_card"
  by (simp add: render_item_def sample_item_def sample_card_def or_else_def Let_def)

text \<open>An item without image and without excerpt or description renders with the fallbacks.\<close>

lemma render_item_fallbacks:
  "imageUrl item = None \<Longrightarrow> excerpt item = None \<Longrightarrow> description item = None \<Longrightarrow>
     \<exists>c. render_item item = Article ''news-item'' c \<and> card_img_src c = placeholder_image
        \<and> card_excerpt c = ''No description available.'' \<and> card_target c = ''_blank''"
  by (simp add: render_item_def or_else_def Let_def)

text \<open>
  With items in the body, the grid holds the cards of the first four items at the moment
  line 211 makes its call.
\<close>

lemma displayFinanceNews_try_items:
  assumes "response_ok status" and "has_items d"
  shows "displayFinanceNews_try (Response status (Json d)) s =
           call_global ''staggerAnimation''
             (s\<lparr>newsGrid := Some (map render_item (take 4 (items_of d)))\<rparr>)"
proof -
  have "fold (\<lambda>item. appendChild (render_item item)) (take 4 (items_of d)) (s\<lparr>newsGrid := Some []\<rparr>)
          = s\<lparr>newsGrid := Some [], newsGrid := Some ([] @ map render_item (take 4 (items_of d)))\<rparr>"
    by (rule fold_appendChild) simp
  then show ?thesis
    using assms by (simp add: displayFinanceNews_try_def Let_def)
qed

text \<open>
  When no other script defines a global \<open>staggerAnimation\<close>, every successful response
  with items ends in the error message: the call throws a \<open>ReferenceError\<close> inside the
  \<open>try\<close> block and the \<open>catch\<close> block replaces the cards.
\<close>

lemma displayFinanceNews_unbound_stagger:
  assumes "newsGrid s = Some g" and "network s = Response status (Json d) # rest"
    and "response_ok status" and "has_items d"
    and "map_of (window_functions s) ''staggerAnimation'' = None"
  shows "newsGrid (displayFinanceNews s) = Some [error_message]
         \<and> console_errors (displayFinanceNews s)
             = console_errors s @ [ReferenceError ''staggerAnimation is not defined'']
         \<and> animations (displayFinanceNews s) = animations s"
  using assms
  by (simp add: displayFinanceNews_def Let_def displayFinanceNews_try_items call_global_def)

text \<open>
  C1.  The claim is what the code sets out to do, and the code fails it.  On the page whose
  endpoint answers 200 with six items, the first four items render to four cards with
  the fallback image and excerpt, and then the grid ends with the error message alone:
  no card, no animation registered, and a \<open>ReferenceError\<close> for \<open>staggerAnimation\<close>
  logged.
\<close>

theorem six_items_end_in_error_state:
  "newsGrid (displayFinanceNews news_page) = Some [error_message]
   \<and> cards (displayFinanceNews news_page) = []
   \<and> console_errors (displayFinanceNews news_page) = [ReferenceError ''staggerAnimation is not defined'']
   \<and> animations (displayFinanceNews news_page) = []
   \<and> map render_item (take 4 six_items) = [sample_card, sample_card, sample_card, sample_card]"
proof -
  have g: "newsGrid news_page = Some []" by (simp add: news_page_def demo_page_def)
  have n: "network news_page = Response 200 (Json (JsonObject (Some six_items))) # []"
    by (simp add: news_page_def)
  have ok: "response_ok 200" by (simp add: response_ok_def)
  have hi: "has_items (JsonObject (Some six_items))" by (simp add: has_items_def six_items_def)
  have w: "map_of (window_functions news_page) ''staggerAnimation'' = None"
    by (simp add: news_page_def demo_page_def)
  have e: "console_errors news_page = []" "animations news_page = []"
    by (simp_all add: news_page_def demo_page_def)
  have r: "map render_item (take 4 six_items) = [sample_card, sample_card, sample_card, sample_card]"
    by (simp add: six_items_def render_sample_item)
  show ?thesis
    using displayFinanceNews_unbound_stagger [OF g n ok hi w] e r
    by (simp add: cards_def error_message_def)
qed

text \<open>
  C8.  On a page with a news grid, when the one request fails (rejected, a status outside
  200 to 299, or a body that is not JSON), the grid ends with the error message alone
  and no card; one request was made, one outcome of the network was used, and the error
  was logged.
\<close>

theorem failed_fetch_shows_error:
  assumes "newsGrid s = Some g" and "network s = r # rest" and "failed_fetch r"
  shows "newsGrid (displayFinanceNews s) = Some [error_message]
         \<and> cards (displayFinanceNews s) = []
         \<and> requests (displayFinanceNews s) = requests s @ [news_endpoint]
         \<and> network (displayFinanceNews s) = rest
         \<and> (\<exists>e. console_errors (displayFinanceNews s) = console_errors s @ [e])"
proof -
  obtain e where t: "\<And>s'. displayFinanceNews_try r s' = Inl (e, s')"
  proof (cases r)
    case Rejected
    then show ?thesis using that by (simp add: displayFinanceNews_try_def)
  next
    case (Response status b)
    show ?thesis
    proof (cases "response_ok status")
      case True
      then have "b = Unparseable" using assms(3) Response by (simp add: failed_fetch_def)
      then show ?thesis using that Response True by (simp add: displayFinanceNews_try_def)
    next
      case False
      then show ?thesis using that Response by (simp add: displayFinanceNews_try_def)
    qed
  qed
  show ?thesis
    using assms(1,2) by (simp add: displayFinanceNews_def Let_def t cards_def error_message_def)
qed

theorem failed_fetch_shows_error_witness:
  "newsGrid server_error_page = Some [] \<and> failed_fetch (Response 500 Unparseable)
   \<and> newsGrid (displayFinanceNews server_error_page) = Some [error_message]
   \<and> cards (displayFinanceNews server_error_page) = []
   \<and> requests (displayFinanceNews server_error_page) = [news_endpoint]
   \<and> network (displayFinanceNews server_error_page) = []"
proof -
  have g: "newsGrid server_error_page = Some []" by (simp add: server_error_page_def demo_page_def)
  have n: "network server_error_page = Response 500 Unparseable # []"
    by (simp add: server_error_page_def)
  have f: "failed_fetch (Response 500 Unparseable)" by (simp add: failed_fetch_def response_ok_def)
  have q: "requests server_error_page = []" by (simp add: server_error_page_def demo_page_def)
  show ?thesis using failed_fetch_shows_error [OF g n f] g f q by simp
qed

lemma displayFinanceNews_no_grid: "newsGrid s = None \<Longrightarrow> displayFinanceNews s = s"
  by (simp add: displayFinanceNews_def)

lemma displayFinanceNews_empty_items:
  assumes "newsGrid s = Some g" and "network s = Response status (Json (JsonObject (Some []))) # rest"
    and "response_ok status"
  shows "newsGrid (displayFinanceNews s) = Some [no_items_message]"
  using assms
  by (simp add: displayFinanceNews_def Let_def displayFinanceNews_try_def has_items_def)

section \<open>Reduced motion\<close>

lemma fold_gsap_set:
  "fold (\<lambda>el. gsap_set el v) els s = s\<lparr>document := set_each v els (document s)\<rparr>"
proof (induction els arbitrary: s)
  case Nil
  then show ?case by (simp add: set_each_def)
next
  case (Cons a els)
  have "fold (\<lambda>el. gsap_set el v) (a # els) s
          = (gsap_set a v s)\<lparr>document := set_each v els (document (gsap_set a v s))\<rparr>"
    by (simp add: Cons.IH)
  also have "\<dots> = s\<lparr>document := set_each v (a # els) (document s)\<rparr>"
    by (simp add: gsap_set_def set_each_def)
  finally show ?case .
qed

lemma length_set_each [simp]: "length (set_each v els d) = length d"
  by (induction els arbitrary: d) (simp_all add: set_each_def)

lemma apply_vars_idem: "apply_vars v (apply_vars v e) = apply_vars v e"
  by (simp add: apply_vars_def split: option.splits)

lemma nth_set_each:
  "i < length d \<Longrightarrow>
     set_each v els d ! i = (if i \<in> set els then apply_vars v (d ! i) else d ! i)"
proof (induction els arbitrary: d)
  case Nil
  then show ?case by (simp add: set_each_def)
next
  case (Cons a els)
  let ?d = "if a < length d then d[a := apply_vars v (d ! a)] else d"
  have len: "i < length ?d" using Cons.prems by simp
  have step: "set_each v (a # els) d = set_each v els ?d" by (simp add: set_each_def)
  have nth: "?d ! i = (if a = i then apply_vars v (d ! i) else d ! i)"
    using Cons.prems by (auto simp add: nth_list_update)
  show ?case
    unfolding step Cons.IH [OF len] nth
    by (auto simp add: apply_vars_idem)
qed

lemma apply_vars_keeps:
  "tag (apply_vars v e) = tag e \<and> classes (apply_vars v e) = classes e
   \<and> parent (apply_vars v e) = parent e"
  by (simp add: apply_vars_def)

lemma set_each_keeps:
  "i < length d \<Longrightarrow>
     tag (set_each v els d ! i) = tag (d ! i) \<and> classes (set_each v els d ! i) = classes (d ! i)
     \<and> parent (set_each v els d ! i) = parent (d ! i)"
  by (simp add: nth_set_each apply_vars_keeps)

text \<open>Setting animation properties changes no tag, class or parent, so the selectors match the same elements afterwards.\<close>

lemma matches_set_each: "matches (set_each v els d) sel i = matches d sel i"
proof (cases sel)
  case (ByClass c)
  then show ?thesis by (auto simp add: set_each_keeps)
next
  case (ChildOf c t)
  then show ?thesis by (auto simp add: set_each_keeps split: option.splits)
qed

lemma toArray_set_each: "toArray sels (set_each v els d) = toArray sels d"
  by (simp add: toArray_def matches_set_each)

lemma apply_resting: "at_rest (apply_vars resting e)"
  by (simp add: at_rest_def apply_vars_def resting_def)

lemma init_timeout_reduced:
  assumes "prefersReducedMotion s"
  shows "init_timeout s =
           s\<lparr>document := set_each resting (toArray animatable (document s)) (document s),
             refresh_count := Suc (refresh_count s)\<rparr>"
  using assms by (simp add: init_timeout_def Let_def fold_gsap_set)

text \<open>
  C9.  When reduced motion is preferred, after the timer callback every element that the
  selector list of line 362 matches (marked elements, post cards, news items, the
  \<open>div\<close> children of the about wrapper) has opacity 1, offsets 0 and scale 1, whatever
  the scroll position and the state before; the other elements are untouched, and no
  animation has been registered.
\<close>

theorem reduced_motion_snaps_to_rest:
  assumes "prefersReducedMotion s"
  shows "(\<forall>i \<in> set (toArray animatable (document (init_timeout s))).
            at_rest (document (init_timeout s) ! i))
         \<and> toArray animatable (document (init_timeout s)) = toArray animatable (document s)
         \<and> length (document (init_timeout s)) = length (document s)
         \<and> (\<forall>i < length (document s). i \<notin> set (toArray animatable (document s)) \<longrightarrow>
              document (init_timeout s) ! i = document s ! i)
         \<and> animations (init_timeout s) = animations s
         \<and> refresh_count (init_timeout s) = Suc (refresh_count s)"
proof -
  let ?els = "toArray animatable (document s)"
  have d: "document (init_timeout s) = set_each resting ?els (document s)"
    by (simp add: init_timeout_reduced [OF assms])
  have in_range: "\<And>i. i \<in> set ?els \<Longrightarrow> i < length (document s)"
    by (simp add: toArray_def)
  have rest: "\<forall>i \<in> set ?els. at_rest (set_each resting ?els (document s) ! i)"
    using in_range by (simp add: nth_set_each apply_resting)
  have others: "\<forall>i < length (document s). i \<notin> set ?els \<longrightarrow>
       set_each resting ?els (document s) ! i = document s ! i"
    by (simp add: nth_set_each)
  show ?thesis
    unfolding d toArray_set_each using rest others
    by (simp add: init_timeout_reduced [OF assms])
qed

lemma sample_toArray: "toArray animatable sample_document = [1, 2]"
  by code_simp

theorem reduced_motion_snaps_to_rest_witness:
  "prefersReducedMotion reduced_motion_page
   \<and> toArray animatable (document reduced_motion_page) = [1, 2]
   \<and> at_rest (document (init_timeout reduced_motion_page) ! 1)
   \<and> at_rest (document (init_timeout reduced_motion_page) ! 2)
   \<and> animations (init_timeout reduced_motion_page) = []"
proof -
  have p: "prefersReducedMotion reduced_motion_page" by (simp add: reduced_motion_page_def)
  have a: "toArray animatable (document reduced_motion_page) = [1, 2]"
    by (simp add: reduced_motion_page_def sample_toArray)
  have n: "animations reduced_motion_page = []" by (simp add: reduced_motion_page_def demo_page_def)
  show ?thesis
    using reduced_motion_snaps_to_rest [OF p] p a n by simp
qed

text \<open>
  Without the preference the callback runs the engine instead.  On the sample document
  the engine registers the reveal of the marked heading, triggered by the heading, and
  the timeline of the about section, triggered by the wrapper, for the paragraph inside
  the text column.
\<close>

lemma init_timeout_animated:
  "\<not> prefersReducedMotion s \<Longrightarrow>
     init_timeout s = (initScrollAnimations s)\<lparr>refresh_count := Suc (refresh_count (initScrollAnimations s))\<rparr>"
  by (simp add: init_timeout_def Let_def)

lemma engine_registers_animations:
  "map anim_targets (animations (init_timeout motion_page)) = [[2], [4]]
   \<and> map anim_trigger (animations (init_timeout motion_page)) = [2, 0]"
  by code_simp

end
